theory Spec2Isabelle
  imports Complex_Main
begin

section \<open>The host's data, as the script reads it\<close>

text \<open>
  The script \<^verbatim>\<open>FutureOptionShortPutOTMExpiryRegressionAlgorithm.py\<close> subclasses the
  engine's \<^verbatim>\<open>QCAlgorithm\<close>. The engine's types are declared outside the script; each
  one below carries the fields the script reads and nothing more.
\<close>

text \<open>
  Python's \<^verbatim>\<open>datetime(y, m, d)\<close> is midnight of that day; two values are equal when
  every component is.
\<close>

record datetime =
  year :: nat
  month :: nat
  day :: nat
  hour :: nat
  minute :: nat
  second :: nat
  microsecond :: nat

definition datetime :: "nat \<Rightarrow> nat \<Rightarrow> nat \<Rightarrow> datetime" where
  "datetime y m d =
     \<lparr>year = y, month = m, day = d, hour = 0, minute = 0, second = 0, microsecond = 0\<rparr>"

datatype Market = USA | CME

datatype OptionStyle = American | European

datatype OptionRight = Call | Put

datatype Resolution = Tick | Second | Minute | Hour | Daily

text \<open>
  Modelled from the spec: the engine's \<^verbatim>\<open>Symbol\<close> class is not part of the script. The
  spec gives the underlying future's identifier as (symbol, expiry date, exchange) and an
  option contract's identifier as "derived from underlying, strike price, right (put/call),
  style, expiry". \<^verbatim>\<open>x.ID.StrikePrice\<close> and \<^verbatim>\<open>x.ID.OptionRight\<close> are the selectors of
  the contract. Strikes are decimals, taken as rationals; the threshold \<^verbatim>\<open>3200.0\<close> is
  the rational 3200. Two symbols are equal when their identifiers are.
\<close>

datatype symbol =
    EquitySymbol string Market
  | FutureSymbol string Market datetime
  | OptionSymbol contract
and contract =
    Contract (Underlying: symbol) (ContractMarket: Market) (Style: OptionStyle)
      (OptionRight: OptionRight) (StrikePrice: rat) (Expiry: datetime)

text \<open>Modelled from the spec: the ticker constant \<^verbatim>\<open>Futures.Indices.SP500EMini\<close>.\<close>

definition SP500EMini :: string where
  "SP500EMini = ''ES''"

definition CreateFuture :: "string \<Rightarrow> Market \<Rightarrow> datetime \<Rightarrow> symbol" where
  "CreateFuture ticker market expiry = FutureSymbol ticker market expiry"

definition CreateOption ::
  "symbol \<Rightarrow> Market \<Rightarrow> OptionStyle \<Rightarrow> OptionRight \<Rightarrow> rat \<Rightarrow> datetime \<Rightarrow> symbol" where
  "CreateOption u market style right strike expiry =
     OptionSymbol (Contract u market style right strike expiry)"

datatype OrderStatus =
  New | Submitted | PartiallyFilled | Filled | Canceled | NoStatus | Invalid
  | CancelPending | UpdateSubmitted

datatype OrderDirection = Buy | Sell | Hold

record OrderEvent =
  oe_Symbol :: symbol
  oe_Status :: OrderStatus
  oe_Direction :: OrderDirection
  oe_IsAssignment :: bool

text \<open>A security of the engine: its symbol and \<^verbatim>\<open>Holdings.Quantity\<close> (a decimal).\<close>

record Security =
  sec_Symbol :: symbol
  sec_HoldingsQuantity :: rat

datatype DelistingType = Warning | Delisted

record Delisting =
  dl_Symbol :: symbol
  dl_Type :: DelistingType
  dl_Time :: datetime

text \<open>
  \<^verbatim>\<open>data.Delistings\<close> is a dictionary from symbols to delisting events; the loop of
  \<^verbatim>\<open>OnData\<close> walks its values in the dictionary's order, so it is an association list.
\<close>

record Slice =
  Delistings :: "(symbol \<times> Delisting) list"

definition Values :: "('k \<times> 'v) list \<Rightarrow> 'v list" where
  "Values d = map snd d"

text \<open>
  What the engine supplies to a callback: the option chain provider, the securities
  collection, and the portfolio's invested flag and keys.
\<close>

record host =
  GetOptionContractList :: "symbol \<Rightarrow> datetime \<Rightarrow> contract list"
  Securities :: "symbol \<rightharpoonup> Security"
  PortfolioInvested :: bool
  PortfolioKeys :: "symbol list"

section \<open>Errors\<close>

text \<open>
  Each \<^verbatim>\<open>raise AssertionError(f"...")\<close> of the script is one constructor, carrying the
  values its message interpolates.
\<close>

datatype assertion =
    ContractNotFoundInChain symbol
  | DelistingWarningAtUnexpectedDate datetime
  | DelistingAtUnexpectedDate datetime
  | OrderEventSymbolNotFound symbol
  | NoOrderEventsExpectedForUnderlying symbol
  | UnknownSymbolOrderEvent symbol
  | NoHoldingsCreated symbol
  | HoldingsAfterClosing
  | AssignmentNotExpected symbol
  | InvestedAtEnd "symbol list"

datatype error =
    AssertionError assertion
  | IndexError
  | AttributeError string

type_synonym outcome = "error + unit"

fun is_AssertionError :: "outcome \<Rightarrow> bool" where
  "is_AssertionError (Inl (AssertionError m)) = True"
| "is_AssertionError _ = False"

section \<open>The algorithm object\<close>

datatype log_line = LogText string | LogOrderEvent OrderEvent

datatype time_rule = AfterMarketOpen symbol nat

datatype handler = ScheduledMarketOrderHandler

record scheduled_event =
  se_Date :: datetime
  se_Time :: time_rule
  se_Callback :: handler

text \<open>
  The three instance fields of the script (unset until \<^verbatim>\<open>Initialize\<close> assigns them),
  and what the script has asked of the engine so far: the dates, the instruments it
  registered, the log lines, the scheduled events and the market orders.
\<close>

record algorithm =
  es19h21 :: "symbol option"
  esOption :: "symbol option"
  expectedContract :: "symbol option"
  StartDate :: "datetime option"
  EndDate :: "datetime option"
  Subscriptions :: "(symbol \<times> Resolution) list"
  Logs :: "log_line list"
  Schedule :: "scheduled_event list"
  Orders :: "(symbol \<times> int) list"

definition new_algorithm :: algorithm where
  "new_algorithm =
     \<lparr>es19h21 = None, esOption = None, expectedContract = None, StartDate = None,
      EndDate = None, Subscriptions = [], Logs = [], Schedule = [], Orders = []\<rparr>"

subsection \<open>Calls into the engine\<close>

definition SetStartDate :: "algorithm \<Rightarrow> nat \<Rightarrow> nat \<Rightarrow> nat \<Rightarrow> algorithm" where
  "SetStartDate self y m d = self\<lparr>StartDate := Some (datetime y m d)\<rparr>"

definition SetEndDateField :: "algorithm \<Rightarrow> datetime \<Rightarrow> algorithm" where
  "SetEndDateField self d = self\<lparr>EndDate := Some d\<rparr>"

text \<open>
  The \<^verbatim>\<open>Add...\<close> calls register the instrument and return its security; the script
  reads only \<^verbatim>\<open>.Symbol\<close> of it, which is the symbol registered.
\<close>

definition AddSecurity :: "algorithm \<Rightarrow> symbol \<Rightarrow> Resolution \<Rightarrow> symbol \<times> algorithm" where
  "AddSecurity self s r = (s, self\<lparr>Subscriptions := Subscriptions self @ [(s, r)]\<rparr>)"

definition AddEquity :: "algorithm \<Rightarrow> string \<Rightarrow> Resolution \<Rightarrow> symbol \<times> algorithm" where
  "AddEquity self ticker r = AddSecurity self (EquitySymbol ticker USA) r"

definition AddFutureContract :: "algorithm \<Rightarrow> symbol \<Rightarrow> Resolution \<Rightarrow> symbol \<times> algorithm" where
  "AddFutureContract self s r = AddSecurity self s r"

definition AddFutureOptionContract ::
  "algorithm \<Rightarrow> contract \<Rightarrow> Resolution \<Rightarrow> symbol \<times> algorithm" where
  "AddFutureOptionContract self c r = AddSecurity self (OptionSymbol c) r"

definition Log :: "algorithm \<Rightarrow> log_line \<Rightarrow> algorithm" where
  "Log self l = self\<lparr>Logs := Logs self @ [l]\<rparr>"

definition ScheduleOn :: "algorithm \<Rightarrow> datetime \<Rightarrow> time_rule \<Rightarrow> handler \<Rightarrow> algorithm" where
  "ScheduleOn self d t cb =
     self\<lparr>Schedule := Schedule self @ [\<lparr>se_Date = d, se_Time = t, se_Callback = cb\<rparr>]\<rparr>"

definition MarketOrder :: "algorithm \<Rightarrow> symbol \<Rightarrow> int \<Rightarrow> algorithm" where
  "MarketOrder self s q = self\<lparr>Orders := Orders self @ [(s, q)]\<rparr>"

section \<open>Initialize\<close>

text \<open>
  Lines 61 to 66: the list comprehension over the chain, \<^verbatim>\<open>sorted\<close> by strike (a stable
  sort, as \<^const>\<open>sort_key\<close> is), and the subscript \<^verbatim>\<open>[0]\<close>, which raises IndexError on
  the empty list.
\<close>

definition put_candidates :: "contract list \<Rightarrow> contract list" where
  "put_candidates chain = [x \<leftarrow> chain. StrikePrice x \<ge> 3200 \<and> OptionRight x = Put]"

definition select_contract :: "contract list \<Rightarrow> error + contract" where
  "select_contract chain =
     (case sort_key StrikePrice (put_candidates chain) of
        [] \<Rightarrow> Inl IndexError
      | x # _ \<Rightarrow> Inr x)"

definition Initialize :: "host \<Rightarrow> algorithm \<Rightarrow> outcome \<times> algorithm" where
  "Initialize h self0 =
     (let self1 = SetStartDate self0 2020 3 1;
          self2 = SetEndDateField self1 (datetime 2021 3 30);
          start = datetime 2020 9 22;
          (aapl, self3) = AddEquity self2 ''AAPL'' Daily;
          (fut, self4) =
             AddFutureContract self3 (CreateFuture SP500EMini CME (datetime 2021 3 19)) Minute;
          self5 = self4\<lparr>es19h21 := Some fut\<rparr>;
          self6 = Log self5 (LogText ''lookup'')
      in case select_contract (GetOptionContractList h fut start) of
           Inl e \<Rightarrow> (Inl e, self6)
         | Inr c \<Rightarrow>
            (let (opt, self7) = AddFutureOptionContract self6 c Minute;
                 self8 = self7\<lparr>esOption := Some opt\<rparr>;
                 self9 = Log self8 (LogText ''Creation'');
                 expected = CreateOption fut CME American Put 3200 (datetime 2021 3 19);
                 self10 = self9\<lparr>expectedContract := Some expected\<rparr>
             in if opt \<noteq> expected
                then (Inl (AssertionError (ContractNotFoundInChain expected)), self10)
                else (let self11 = Log self10 (LogText ''Schedule'')
                      in (Inr (),
                          ScheduleOn self11 (datetime (year start) (month start) (day start))
                            (AfterMarketOpen fut 1) ScheduledMarketOrderHandler))))"

section \<open>The callbacks\<close>

text \<open>Reading an instance field that no assignment has created raises AttributeError.\<close>

definition ScheduledMarketOrder :: "algorithm \<Rightarrow> outcome \<times> algorithm" where
  "ScheduledMarketOrder self =
     (case esOption self of
        None \<Rightarrow> (Inl (AttributeError ''esOption''), self)
      | Some opt \<Rightarrow> (Inr (), MarketOrder self opt (- 1)))"

text \<open>
  The body of the loop of \<^verbatim>\<open>OnData\<close> for one delisting event, and the loop itself: the
  first event that fails a check ends it.
\<close>

definition check_delisting :: "Delisting \<Rightarrow> outcome" where
  "check_delisting delisting =
     (if dl_Type delisting = Warning \<and> dl_Time delisting \<noteq> datetime 2021 3 19
      then Inl (AssertionError (DelistingWarningAtUnexpectedDate (dl_Time delisting)))
      else if dl_Type delisting = Delisted \<and> dl_Time delisting \<noteq> datetime 2021 3 20
      then Inl (AssertionError (DelistingAtUnexpectedDate (dl_Time delisting)))
      else Inr ())"

fun check_delistings :: "Delisting list \<Rightarrow> outcome" where
  "check_delistings [] = Inr ()"
| "check_delistings (delisting # rest) =
     (case check_delisting delisting of
        Inl e \<Rightarrow> Inl e
      | Inr _ \<Rightarrow> check_delistings rest)"

definition OnData :: "algorithm \<Rightarrow> Slice \<Rightarrow> outcome \<times> algorithm" where
  "OnData self data = (check_delistings (Values (Delistings data)), self)"

definition AssertFutureOptionContractOrder ::
  "algorithm \<Rightarrow> OrderEvent \<Rightarrow> Security \<Rightarrow> outcome \<times> algorithm" where
  "AssertFutureOptionContractOrder self orderEvent optionContract =
     (if oe_Direction orderEvent = Sell \<and> sec_HoldingsQuantity optionContract \<noteq> - 1
      then (Inl (AssertionError (NoHoldingsCreated (sec_Symbol optionContract))), self)
      else if oe_Direction orderEvent = Buy \<and> sec_HoldingsQuantity optionContract \<noteq> 0
      then (Inl (AssertionError HoldingsAfterClosing), self)
      else if oe_IsAssignment orderEvent
      then (Inl (AssertionError (AssignmentNotExpected (oe_Symbol orderEvent))), self)
      else (Inr (), self))"

definition OnOrderEvent :: "host \<Rightarrow> algorithm \<Rightarrow> OrderEvent \<Rightarrow> outcome \<times> algorithm" where
  "OnOrderEvent h self orderEvent =
     (if oe_Status orderEvent \<noteq> Filled then (Inr (), self)
      else case Securities h (oe_Symbol orderEvent) of
        None \<Rightarrow>
          (Inl (AssertionError (OrderEventSymbolNotFound (oe_Symbol orderEvent))), self)
      | Some security \<Rightarrow>
         (case es19h21 self of
            None \<Rightarrow> (Inl (AttributeError ''es19h21''), self)
          | Some underlying \<Rightarrow>
             if sec_Symbol security = underlying
             then (Inl (AssertionError
                     (NoOrderEventsExpectedForUnderlying (sec_Symbol security))), self)
             else (case expectedContract self of
                None \<Rightarrow> (Inl (AttributeError ''expectedContract''), self)
              | Some expected \<Rightarrow>
                 if sec_Symbol security = expected
                 then (case AssertFutureOptionContractOrder self orderEvent security of
                         (Inl e, self') \<Rightarrow> (Inl e, self')
                       | (Inr _, self') \<Rightarrow> (Inr (), Log self' (LogOrderEvent orderEvent)))
                 else (Inl (AssertionError
                         (UnknownSymbolOrderEvent (oe_Symbol orderEvent))), self))))"

definition OnEndOfAlgorithm :: "host \<Rightarrow> algorithm \<Rightarrow> outcome \<times> algorithm" where
  "OnEndOfAlgorithm h self =
     (if PortfolioInvested h
      then (Inl (AssertionError (InvestedAtEnd (PortfolioKeys h))), self)
      else (Inr (), self))"

section \<open>A run of the callbacks\<close>

text \<open>
  After \<^verbatim>\<open>Initialize\<close> the engine invokes the handlers one after the other, each with the
  facts it holds at that moment; the first exception aborts the run.
\<close>

datatype callback =
    Scheduled
  | Data Slice
  | OrderEv host OrderEvent
  | EndOfAlgorithm host

fun invoke :: "algorithm \<Rightarrow> callback \<Rightarrow> outcome \<times> algorithm" where
  "invoke self Scheduled = ScheduledMarketOrder self"
| "invoke self (Data data) = OnData self data"
| "invoke self (OrderEv h orderEvent) = OnOrderEvent h self orderEvent"
| "invoke self (EndOfAlgorithm h) = OnEndOfAlgorithm h self"

fun run :: "algorithm \<Rightarrow> callback list \<Rightarrow> outcome \<times> algorithm" where
  "run self [] = (Inr (), self)"
| "run self (cb # cbs) =
     (case invoke self cb of
        (Inl e, self') \<Rightarrow> (Inl e, self')
      | (Inr _, self') \<Rightarrow> run self' cbs)"

definition scenario :: "host \<Rightarrow> callback list \<Rightarrow> outcome \<times> algorithm" where
  "scenario h cbs =
     (case Initialize h new_algorithm of
        (Inl e, self) \<Rightarrow> (Inl e, self)
      | (Inr _, self) \<Rightarrow> run self cbs)"

text \<open>The instance fields of the script, as a triple.\<close>

definition fields :: "algorithm \<Rightarrow> symbol option \<times> symbol option \<times> symbol option" where
  "fields self = (es19h21 self, esOption self, expectedContract self)"

section \<open>The identifiers the script fixes\<close>

text \<open>
  Names for three expressions of \<^verbatim>\<open>Initialize\<close>: the future it adds (lines 52 to 55), the
  date at which it queries the chain (line 44) and the contract it expects (line 70).
\<close>

definition underlying_future :: symbol where
  "underlying_future = CreateFuture SP500EMini CME (datetime 2021 3 19)"

definition query_date :: datetime where
  "query_date = datetime 2020 9 22"

definition expected_option :: symbol where
  "expected_option = CreateOption underlying_future CME American Put 3200 (datetime 2021 3 19)"

section \<open>Concrete inputs\<close>

text \<open>
  A chain with calls and puts on both sides of the threshold, hosts that hold one
  security, an order event, delisting events, an object as \<^verbatim>\<open>Initialize\<close> leaves it, and
  the run the scenario expects: the scheduled sale, its fill, the two delisting events
  and the end of the algorithm.
\<close>

definition example_put :: "rat \<Rightarrow> contract" where
  "example_put k = Contract underlying_future CME American Put k (datetime 2021 3 19)"

definition example_call :: "rat \<Rightarrow> contract" where
  "example_call k = Contract underlying_future CME American Call k (datetime 2021 3 19)"

definition chain_host :: "contract list \<Rightarrow> host" where
  "chain_host chain =
     \<lparr>GetOptionContractList =
        (\<lambda>u d. if u = underlying_future \<and> d = query_date then chain else []),
      Securities = Map.empty, PortfolioInvested = False, PortfolioKeys = []\<rparr>"

definition example_chain :: "contract list" where
  "example_chain = [example_put 3300, example_call 3200, example_put 3100, example_put 3200]"

definition example_event :: "OrderDirection \<Rightarrow> bool \<Rightarrow> OrderEvent" where
  "example_event d a =
     \<lparr>oe_Symbol = expected_option, oe_Status = Filled, oe_Direction = d, oe_IsAssignment = a\<rparr>"

definition example_security :: "symbol \<Rightarrow> rat \<Rightarrow> Security" where
  "example_security s q = \<lparr>sec_Symbol = s, sec_HoldingsQuantity = q\<rparr>"

definition example_delisting :: "symbol \<Rightarrow> DelistingType \<Rightarrow> nat \<Rightarrow> symbol \<times> Delisting" where
  "example_delisting s t d = (s, \<lparr>dl_Symbol = s, dl_Type = t, dl_Time = datetime 2021 3 d\<rparr>)"

definition holding_host :: "symbol \<Rightarrow> rat \<Rightarrow> host" where
  "holding_host s q =
     \<lparr>GetOptionContractList = (\<lambda>u d. []),
      Securities = [s \<mapsto> example_security s q],
      PortfolioInvested = (q \<noteq> 0), PortfolioKeys = [s]\<rparr>"

definition initialized :: algorithm where
  "initialized = new_algorithm\<lparr>es19h21 := Some underlying_future,
     esOption := Some expected_option, expectedContract := Some expected_option\<rparr>"

definition example_run :: "callback list" where
  "example_run =
     [Scheduled,
      OrderEv (holding_host expected_option (- 1)) (example_event Sell False),
      Data \<lparr>Delistings = [example_delisting expected_option Warning 19]\<rparr>,
      Data \<lparr>Delistings = [example_delisting expected_option Delisted 20]\<rparr>,
      EndOfAlgorithm (holding_host expected_option 0)]"

section \<open>Initialize: the selected contract\<close>

lemmas engine_defs =
  SetStartDate_def SetEndDateField_def AddSecurity_def AddEquity_def AddFutureContract_def
  AddFutureOptionContract_def Log_def ScheduleOn_def MarketOrder_def

lemma datetime_simps [simp]:
  "year (datetime y m d) = y" "month (datetime y m d) = m" "day (datetime y m d) = d"
  by (simp_all add: datetime_def)

lemma Initialize_outcome:
  "fst (Initialize h self) =
     (case select_contract (GetOptionContractList h underlying_future query_date) of
        Inl e \<Rightarrow> Inl e
      | Inr c \<Rightarrow>
          if OptionSymbol c = expected_option then Inr ()
          else Inl (AssertionError (ContractNotFoundInChain expected_option)))"
  by (simp add: Initialize_def engine_defs underlying_future_def query_date_def
      expected_option_def Let_def split: sum.split)

lemma Initialize_fields:
  "fields (snd (Initialize h self)) =
     (case select_contract (GetOptionContractList h underlying_future query_date) of
        Inl e \<Rightarrow> (Some underlying_future, esOption self, expectedContract self)
      | Inr c \<Rightarrow> (Some underlying_future, Some (OptionSymbol c), Some expected_option))"
  by (simp add: Initialize_def engine_defs underlying_future_def query_date_def
      expected_option_def fields_def Let_def split: sum.split)


lemma sort_key_Nil_iff: "sort_key f xs = [] \<longleftrightarrow> xs = []"
  by (metis length_sort length_0_conv)

lemma select_contract_IndexError_iff:
  "select_contract chain = Inl e \<longleftrightarrow> put_candidates chain = [] \<and> e = IndexError"
  by (auto simp: select_contract_def sort_key_Nil_iff split: list.splits)

lemma select_contract_Inr:
  assumes "select_contract chain = Inr c"
  shows "c \<in> set (put_candidates chain)"
    and "\<forall>x \<in> set (put_candidates chain). StrikePrice c \<le> StrikePrice x"
    and "hd [x \<leftarrow> put_candidates chain. StrikePrice x = StrikePrice c] = c"
proof -
  let ?ps = "put_candidates chain"
  from assms obtain rest where s: "sort_key StrikePrice ?ps = c # rest"
    by (auto simp: select_contract_def split: list.splits)
  have "set (sort_key StrikePrice ?ps) = set ?ps" by simp
  with s have mem: "set ?ps = insert c (set rest)" by simp
  then show "c \<in> set ?ps" by simp
  have "sorted (map StrikePrice (sort_key StrikePrice ?ps))" by (rule sorted_sort_key)
  with s have "\<forall>x \<in> set rest. StrikePrice c \<le> StrikePrice x" by simp
  with mem show "\<forall>x \<in> set ?ps. StrikePrice c \<le> StrikePrice x" by simp
  have "[x \<leftarrow> ?ps. StrikePrice x = StrikePrice c]
          = [x \<leftarrow> sort_key StrikePrice ?ps. StrikePrice x = StrikePrice c]"
    by (rule sort_key_stable [symmetric])
  also have "\<dots> = c # [x \<leftarrow> rest. StrikePrice x = StrikePrice c]" by (simp add: s)
  finally show "hd [x \<leftarrow> ?ps. StrikePrice x = StrikePrice c] = c" by simp
qed

lemma select_contract_nonempty:
  "put_candidates chain \<noteq> [] \<Longrightarrow> \<exists>c. select_contract chain = Inr c"
  by (cases "select_contract chain") (auto simp: select_contract_IndexError_iff)

lemma put_candidates_nonempty:
  "x \<in> set chain \<Longrightarrow> OptionRight x = Put \<Longrightarrow> 3200 \<le> StrikePrice x
     \<Longrightarrow> put_candidates chain \<noteq> []"
  by (auto simp: put_candidates_def filter_empty_conv)

lemma put_candidates_ties:
  "[x \<leftarrow> put_candidates chain. StrikePrice x = k]
     = [x \<leftarrow> chain. OptionRight x = Put \<and> 3200 \<le> StrikePrice x \<and> StrikePrice x = k]"
  by (simp add: put_candidates_def conj_ac)

text \<open>
  Claim C1. \<^verbatim>\<open>Initialize\<close> queries the chain of the underlying future at 2020-09-22, keeps
  the puts with strike at least 3200, sorts them by strike and takes the first. Whenever
  the chain returned holds a put with strike at least 3200, the contract taken is one of
  the chain, a put at or above the threshold, of the lowest strike among the chain's puts
  at or above the threshold, and the first of that strike in the chain's order; its symbol
  is stored in \<^verbatim>\<open>esOption\<close>; and \<^verbatim>\<open>Initialize\<close> raises the AssertionError "Contract ... was
  not found in the chain" exactly when that symbol differs from
  \<^verbatim>\<open>Symbol.CreateOption(es19h21, Market.CME, American, Put, 3200.0, 2021-03-19)\<close>.
\<close>

theorem C1_Initialize_selects_lowest_put:
  assumes "x0 \<in> set (GetOptionContractList h underlying_future query_date)"
    and "OptionRight x0 = Put" and "3200 \<le> StrikePrice x0"
  shows "\<exists>c. c \<in> set (GetOptionContractList h underlying_future query_date)
    \<and> OptionRight c = Put \<and> 3200 \<le> StrikePrice c
    \<and> (\<forall>x \<in> set (GetOptionContractList h underlying_future query_date).
          OptionRight x = Put \<and> 3200 \<le> StrikePrice x \<longrightarrow> StrikePrice c \<le> StrikePrice x)
    \<and> hd [x \<leftarrow> GetOptionContractList h underlying_future query_date.
             OptionRight x = Put \<and> 3200 \<le> StrikePrice x \<and> StrikePrice x = StrikePrice c] = c
    \<and> esOption (snd (Initialize h self)) = Some (OptionSymbol c)
    \<and> (OptionSymbol c = expected_option \<longrightarrow> fst (Initialize h self) = Inr ())
    \<and> (OptionSymbol c \<noteq> expected_option \<longrightarrow>
          fst (Initialize h self) = Inl (AssertionError (ContractNotFoundInChain expected_option)))"
proof -
  let ?chain = "GetOptionContractList h underlying_future query_date"
  from assms have "put_candidates ?chain \<noteq> []" by (rule put_candidates_nonempty)
  then obtain c where c: "select_contract ?chain = Inr c"
    using select_contract_nonempty by blast
  note sel = select_contract_Inr [OF c]
  from sel(1) have "c \<in> set ?chain" "OptionRight c = Put" "3200 \<le> StrikePrice c"
    by (simp_all add: put_candidates_def)
  moreover from sel(2)
  have "\<forall>x \<in> set ?chain. OptionRight x = Put \<and> 3200 \<le> StrikePrice x \<longrightarrow> StrikePrice c \<le> StrikePrice x"
    by (simp add: put_candidates_def)
  moreover from sel(3)
  have "hd [x \<leftarrow> ?chain. OptionRight x = Put \<and> 3200 \<le> StrikePrice x
            \<and> StrikePrice x = StrikePrice c] = c"
    by (simp add: put_candidates_ties)
  moreover from Initialize_fields [of h self] c
  have "esOption (snd (Initialize h self)) = Some (OptionSymbol c)"
    by (simp add: fields_def)
  moreover from c have "OptionSymbol c = expected_option \<longrightarrow> fst (Initialize h self) = Inr ()"
    by (simp add: Initialize_outcome)
  moreover from c have "OptionSymbol c \<noteq> expected_option \<longrightarrow>
      fst (Initialize h self) = Inl (AssertionError (ContractNotFoundInChain expected_option))"
    by (simp add: Initialize_outcome)
  ultimately show ?thesis by blast
qed


section \<open>OnData\<close>

lemma check_delistings_raises:
  "d \<in> set ds \<Longrightarrow> check_delisting d \<noteq> Inr () \<Longrightarrow> is_AssertionError (check_delistings ds)"
proof (induction ds)
  case Nil
  then show ?case by simp
next
  case (Cons x xs)
  show ?case
  proof (cases "check_delisting x")
    case (Inl e)
    then have "is_AssertionError (Inl e)"
      by (auto simp: check_delisting_def split: if_splits)
    with Inl show ?thesis by simp
  next
    case (Inr u)
    with Cons show ?thesis by auto
  qed
qed

lemma check_delistings_accepts:
  "(\<And>d. d \<in> set ds \<Longrightarrow> check_delisting d = Inr ()) \<Longrightarrow> check_delistings ds = Inr ()"
  by (induction ds) simp_all

lemma check_delisting_Inr_iff:
  "check_delisting d = Inr () \<longleftrightarrow>
     (dl_Type d = Warning \<longrightarrow> dl_Time d = datetime 2021 3 19)
     \<and> (dl_Type d = Delisted \<longrightarrow> dl_Time d = datetime 2021 3 20)"
  by (auto simp: check_delisting_def)

lemma check_delisting_symbol:
  "check_delisting (d\<lparr>dl_Symbol := s\<rparr>) = check_delisting d"
  by (simp add: check_delisting_def)

lemma check_delistings_relabel:
  "check_delistings (map (\<lambda>d. d\<lparr>dl_Symbol := g d\<rparr>) ds) = check_delistings ds"
  by (induction ds) (simp_all add: check_delisting_symbol split: sum.split)

text \<open>
  Claim C3. \<^verbatim>\<open>OnData\<close> raises an AssertionError when the slice holds a delisting warning
  whose time is not 2021-03-19 or a final delisting whose time is not 2021-03-20 (for the
  selected contract as for any other symbol); when every delisting event of the slice has
  its expected time it returns normally; in both cases the object is left as it was.
\<close>

theorem C3_OnData_delisting_times:
  "((\<exists>d \<in> set (Values (Delistings data)).
        (dl_Type d = Warning \<and> dl_Time d \<noteq> datetime 2021 3 19)
        \<or> (dl_Type d = Delisted \<and> dl_Time d \<noteq> datetime 2021 3 20))
      \<longrightarrow> is_AssertionError (fst (OnData self data)))
   \<and> ((\<forall>d \<in> set (Values (Delistings data)).
        (dl_Type d = Warning \<longrightarrow> dl_Time d = datetime 2021 3 19)
        \<and> (dl_Type d = Delisted \<longrightarrow> dl_Time d = datetime 2021 3 20))
      \<longrightarrow> OnData self data = (Inr (), self))
   \<and> snd (OnData self data) = self"
proof (intro conjI impI)
  assume "\<exists>d \<in> set (Values (Delistings data)).
        (dl_Type d = Warning \<and> dl_Time d \<noteq> datetime 2021 3 19)
        \<or> (dl_Type d = Delisted \<and> dl_Time d \<noteq> datetime 2021 3 20)"
  then obtain d where "d \<in> set (Values (Delistings data))" and "check_delisting d \<noteq> Inr ()"
    by (auto simp: check_delisting_Inr_iff)
  then show "is_AssertionError (fst (OnData self data))"
    by (simp add: OnData_def check_delistings_raises)
next
  assume "\<forall>d \<in> set (Values (Delistings data)).
        (dl_Type d = Warning \<longrightarrow> dl_Time d = datetime 2021 3 19)
        \<and> (dl_Type d = Delisted \<longrightarrow> dl_Time d = datetime 2021 3 20)"
  then have "check_delistings (Values (Delistings data)) = Inr ()"
    by (intro check_delistings_accepts) (simp add: check_delisting_Inr_iff)
  then show "OnData self data = (Inr (), self)"
    by (simp add: OnData_def)
next
  show "snd (OnData self data) = self" by (simp add: OnData_def)
qed

text \<open>
  Claim C9. The checks of \<^verbatim>\<open>OnData\<close> never read a symbol: a mistimed event under any key
  \<open>k\<close> raises an AssertionError, and renaming the keys of the slice and the symbols of its
  events in any way leaves the outcome the same.
\<close>

theorem C9_OnData_ignores_symbols:
  "((k, d) \<in> set (Delistings data)
      \<and> ((dl_Type d = Warning \<and> dl_Time d \<noteq> datetime 2021 3 19)
         \<or> (dl_Type d = Delisted \<and> dl_Time d \<noteq> datetime 2021 3 20))
      \<longrightarrow> is_AssertionError (fst (OnData self data)))
   \<and> fst (OnData self
        (data\<lparr>Delistings := map (\<lambda>(k, d). (f k, d\<lparr>dl_Symbol := g d\<rparr>)) (Delistings data)\<rparr>))
      = fst (OnData self data)"
proof (intro conjI impI)
  assume a: "(k, d) \<in> set (Delistings data)
      \<and> ((dl_Type d = Warning \<and> dl_Time d \<noteq> datetime 2021 3 19)
         \<or> (dl_Type d = Delisted \<and> dl_Time d \<noteq> datetime 2021 3 20))"
  then have "d \<in> set (Values (Delistings data))"
    by (force simp: Values_def)
  moreover from a have "check_delisting d \<noteq> Inr ()"
    by (auto simp: check_delisting_Inr_iff)
  ultimately show "is_AssertionError (fst (OnData self data))"
    by (simp add: OnData_def check_delistings_raises)
next
  have "Values (map (\<lambda>(k, d). (f k, d\<lparr>dl_Symbol := g d\<rparr>)) (Delistings data))
          = map (\<lambda>d. d\<lparr>dl_Symbol := g d\<rparr>) (Values (Delistings data))"
    by (simp add: Values_def case_prod_beta comp_def)
  then show "fst (OnData self
        (data\<lparr>Delistings := map (\<lambda>(k, d). (f k, d\<lparr>dl_Symbol := g d\<rparr>)) (Delistings data)\<rparr>))
      = fst (OnData self data)"
    by (simp add: OnData_def check_delistings_relabel)
qed

section \<open>Order events and the end of the run\<close>

text \<open>
  Claim C2. \<^verbatim>\<open>AssertFutureOptionContractOrder\<close> raises an AssertionError for a sell event
  when the holdings quantity is not -1, for a buy event when the quantity is not 0, and
  for an event with the assignment flag; in every other case it returns normally and
  changes nothing.
\<close>

theorem C2_AssertFutureOptionContractOrder:
  "(oe_Direction ev = Sell \<and> sec_HoldingsQuantity sec \<noteq> - 1
      \<longrightarrow> is_AssertionError (fst (AssertFutureOptionContractOrder self ev sec)))
   \<and> (oe_Direction ev = Buy \<and> sec_HoldingsQuantity sec \<noteq> 0
      \<longrightarrow> is_AssertionError (fst (AssertFutureOptionContractOrder self ev sec)))
   \<and> (oe_IsAssignment ev
      \<longrightarrow> is_AssertionError (fst (AssertFutureOptionContractOrder self ev sec)))
   \<and> (\<not> (oe_Direction ev = Sell \<and> sec_HoldingsQuantity sec \<noteq> - 1)
      \<and> \<not> (oe_Direction ev = Buy \<and> sec_HoldingsQuantity sec \<noteq> 0)
      \<and> \<not> oe_IsAssignment ev
      \<longrightarrow> AssertFutureOptionContractOrder self ev sec = (Inr (), self))"
  by (simp add: AssertFutureOptionContractOrder_def)

lemma AssertFutureOptionContractOrder_snd:
  "snd (AssertFutureOptionContractOrder self ev sec) = self"
  by (simp add: AssertFutureOptionContractOrder_def)

lemma OnOrderEvent_expected:
  assumes "oe_Status ev = Filled" and "Securities h (oe_Symbol ev) = Some sec"
    and "es19h21 self = Some u" and "expectedContract self = Some e"
    and "sec_Symbol sec = e" and "e \<noteq> u"
  shows "fst (OnOrderEvent h self ev) = fst (AssertFutureOptionContractOrder self ev sec)"
  using assms
  by (cases "AssertFutureOptionContractOrder self ev sec")
     (auto simp: OnOrderEvent_def split: sum.splits)

text \<open>
  Claim C5. \<^verbatim>\<open>OnOrderEvent\<close> returns at once, with no effect, for an event that is not
  filled. For a filled event it raises an AssertionError when the symbol is not in the
  securities collection, when it is the underlying future, and when it is any other symbol
  than the expected contract; for the expected contract its outcome is that of
  \<^verbatim>\<open>AssertFutureOptionContractOrder\<close>, and a filled event is accepted only through that
  routine. The collection is keyed by the symbols of its securities
  (\<open>sec_Symbol sec = oe_Symbol ev\<close>), and the two fields read have been assigned.
\<close>

theorem C5_OnOrderEvent:
  "(oe_Status ev \<noteq> Filled \<longrightarrow> OnOrderEvent h self ev = (Inr (), self))
   \<and> (oe_Status ev = Filled \<and> Securities h (oe_Symbol ev) = None
      \<longrightarrow> is_AssertionError (fst (OnOrderEvent h self ev)))
   \<and> (oe_Status ev = Filled \<and> Securities h (oe_Symbol ev) = Some sec
      \<and> sec_Symbol sec = oe_Symbol ev \<and> es19h21 self = Some (oe_Symbol ev)
      \<longrightarrow> is_AssertionError (fst (OnOrderEvent h self ev)))
   \<and> (oe_Status ev = Filled \<and> Securities h (oe_Symbol ev) = Some sec
      \<and> sec_Symbol sec = oe_Symbol ev \<and> es19h21 self = Some u
      \<and> expectedContract self = Some e \<and> oe_Symbol ev \<noteq> e
      \<longrightarrow> is_AssertionError (fst (OnOrderEvent h self ev)))
   \<and> (oe_Status ev = Filled \<and> Securities h (oe_Symbol ev) = Some sec
      \<and> sec_Symbol sec = oe_Symbol ev \<and> es19h21 self = Some u
      \<and> expectedContract self = Some e \<and> oe_Symbol ev = e \<and> e \<noteq> u
      \<longrightarrow> fst (OnOrderEvent h self ev) = fst (AssertFutureOptionContractOrder self ev sec))
   \<and> (oe_Status ev = Filled \<and> fst (OnOrderEvent h self ev) = Inr ()
      \<longrightarrow> (\<exists>sec. Securities h (oe_Symbol ev) = Some sec
            \<and> expectedContract self = Some (sec_Symbol sec)
            \<and> fst (AssertFutureOptionContractOrder self ev sec) = Inr ()))"
proof (intro conjI impI)
  assume "oe_Status ev = Filled \<and> Securities h (oe_Symbol ev) = Some sec
      \<and> sec_Symbol sec = oe_Symbol ev \<and> es19h21 self = Some u
      \<and> expectedContract self = Some e \<and> oe_Symbol ev = e \<and> e \<noteq> u"
  then show "fst (OnOrderEvent h self ev) = fst (AssertFutureOptionContractOrder self ev sec)"
    by (intro OnOrderEvent_expected [where u = u and e = e]) auto
next
  assume a: "oe_Status ev = Filled \<and> fst (OnOrderEvent h self ev) = Inr ()"
  then show "\<exists>sec. Securities h (oe_Symbol ev) = Some sec
            \<and> expectedContract self = Some (sec_Symbol sec)
            \<and> fst (AssertFutureOptionContractOrder self ev sec) = Inr ()"
    by (auto simp: OnOrderEvent_def split: option.splits if_splits sum.splits prod.splits)
qed (auto simp: OnOrderEvent_def)

text \<open>
  Claim C4, as stated, asks that a run which passes \<^verbatim>\<open>OnEndOfAlgorithm\<close> has the invested
  flag false and an empty holdings list. The handler reads \<^verbatim>\<open>Portfolio.Keys\<close> only to
  build its message: a portfolio that still lists AAPL, with nothing invested, passes.
\<close>

theorem C4_holdings_list_counterexample:
  "\<not> (fst (OnEndOfAlgorithm (holding_host (EquitySymbol ''AAPL'' USA) 0) initialized) = Inr ()
       \<longrightarrow> \<not> PortfolioInvested (holding_host (EquitySymbol ''AAPL'' USA) 0)
          \<and> PortfolioKeys (holding_host (EquitySymbol ''AAPL'' USA) 0) = [])"
  by (simp add: OnEndOfAlgorithm_def holding_host_def)

text \<open>
  Claim C4, amended. \<^verbatim>\<open>OnEndOfAlgorithm\<close> raises an AssertionError if and only if the
  portfolio's invested flag is true, and returns normally if and only if it is false; it
  changes nothing, and the keys of the portfolio have no part in whether it raises.
\<close>

theorem C4_OnEndOfAlgorithm_invested:
  "(is_AssertionError (fst (OnEndOfAlgorithm h self)) \<longleftrightarrow> PortfolioInvested h)
   \<and> (fst (OnEndOfAlgorithm h self) = Inr () \<longleftrightarrow> \<not> PortfolioInvested h)
   \<and> snd (OnEndOfAlgorithm h self) = self
   \<and> (is_AssertionError (fst (OnEndOfAlgorithm (h\<lparr>PortfolioKeys := ks\<rparr>) self))
        \<longleftrightarrow> is_AssertionError (fst (OnEndOfAlgorithm h self)))"
  by (simp add: OnEndOfAlgorithm_def)

section \<open>Runs: fields and orders\<close>

lemma invoke_fields: "fields (snd (invoke self cb)) = fields self"
proof (cases cb)
  case Scheduled
  then show ?thesis
    by (simp add: ScheduledMarketOrder_def MarketOrder_def fields_def split: option.split)
next
  case (Data data)
  then show ?thesis by (simp add: OnData_def)
next
  case (OrderEv h ev)
  then show ?thesis
    by (simp add: OnOrderEvent_def AssertFutureOptionContractOrder_def Log_def fields_def
        split: option.split)
next
  case (EndOfAlgorithm h)
  then show ?thesis by (simp add: OnEndOfAlgorithm_def)
qed

lemma run_fields: "fields (snd (run self cbs)) = fields self"
proof (induction cbs arbitrary: self)
  case Nil
  show ?case by simp
next
  case (Cons cb cbs)
  obtain r self' where inv: "invoke self cb = (r, self')" by (cases "invoke self cb")
  with invoke_fields [of self cb] have f: "fields self' = fields self" by simp
  show ?case
  proof (cases r)
    case (Inl e)
    with inv f show ?thesis by simp
  next
    case (Inr u)
    with inv f Cons.IH [of self'] show ?thesis by simp
  qed
qed

lemma invoke_Orders_other:
  "cb \<noteq> Scheduled \<Longrightarrow> Orders (snd (invoke self cb)) = Orders self"
  by (cases cb)
     (simp_all add: OnData_def OnOrderEvent_def AssertFutureOptionContractOrder_def Log_def
        OnEndOfAlgorithm_def split: option.split)

lemma invoke_Scheduled:
  "esOption self = Some opt \<Longrightarrow>
     invoke self Scheduled = (Inr (), self\<lparr>Orders := Orders self @ [(opt, - 1)]\<rparr>)"
  by (simp add: ScheduledMarketOrder_def MarketOrder_def)

lemma run_Orders:
  assumes "esOption self = Some opt"
  shows "\<exists>n \<le> count_list cbs Scheduled.
           Orders (snd (run self cbs)) = Orders self @ replicate n (opt, - 1)
           \<and> (fst (run self cbs) = Inr () \<longrightarrow> n = count_list cbs Scheduled)"
  using assms
proof (induction cbs arbitrary: self)
  case Nil
  show ?case by simp
next
  case (Cons cb cbs)
  show ?case
  proof (cases "cb = Scheduled")
    case True
    let ?self' = "self\<lparr>Orders := Orders self @ [(opt, - 1)]\<rparr>"
    have "esOption ?self' = Some opt" using Cons.prems by simp
    from Cons.IH [OF this] obtain n where n: "n \<le> count_list cbs Scheduled"
      "Orders (snd (run ?self' cbs)) = Orders ?self' @ replicate n (opt, - 1)"
      "fst (run ?self' cbs) = Inr () \<longrightarrow> n = count_list cbs Scheduled"
      by blast
    have r: "run self (cb # cbs) = run ?self' cbs"
      using True invoke_Scheduled [OF Cons.prems] by simp
    have "Orders (snd (run self (cb # cbs))) = Orders self @ replicate (Suc n) (opt, - 1)"
      using n(2) r by simp
    with n(1,3) r True show ?thesis
      by (intro exI [of _ "Suc n"]) simp
  next
    case False
    obtain r self' where inv: "invoke self cb = (r, self')" by (cases "invoke self cb")
    from invoke_Orders_other [OF False, of self] inv have o: "Orders self' = Orders self"
      by simp
    from invoke_fields [of self cb] inv Cons.prems have e: "esOption self' = Some opt"
      by (simp add: fields_def)
    show ?thesis
    proof (cases r)
      case (Inl err)
      with inv o False show ?thesis by (intro exI [of _ 0]) simp
    next
      case (Inr u)
      from Cons.IH [OF e] obtain n where n: "n \<le> count_list cbs Scheduled"
        "Orders (snd (run self' cbs)) = Orders self' @ replicate n (opt, - 1)"
        "fst (run self' cbs) = Inr () \<longrightarrow> n = count_list cbs Scheduled"
        by blast
      with Inr inv o False show ?thesis by (intro exI [of _ n]) simp
    qed
  qed
qed

lemma Initialize_Orders: "Orders (snd (Initialize h self)) = Orders self"
  by (simp add: Initialize_def engine_defs Let_def split: sum.split)

lemma Initialize_success:
  "fst (Initialize h self) = Inr () \<longleftrightarrow>
     (\<exists>c. select_contract (GetOptionContractList h underlying_future query_date) = Inr c
          \<and> OptionSymbol c = expected_option)"
  by (cases "select_contract (GetOptionContractList h underlying_future query_date)")
     (simp_all add: Initialize_outcome)

lemma Initialize_Schedule:
  assumes "fst (Initialize h self) = Inr ()"
  shows "Schedule (snd (Initialize h self)) = Schedule self @
       [\<lparr>se_Date = query_date, se_Time = AfterMarketOpen underlying_future 1,
         se_Callback = ScheduledMarketOrderHandler\<rparr>]"
proof -
  from assms obtain c
    where "select_contract (GetOptionContractList h underlying_future query_date) = Inr c"
      and "OptionSymbol c = expected_option"
    by (auto simp: Initialize_success)
  then show ?thesis
    by (simp add: Initialize_def engine_defs Let_def query_date_def underlying_future_def
        expected_option_def)
qed

lemma Initialize_success_fields:
  "fst (Initialize h self) = Inr () \<Longrightarrow>
     fields (snd (Initialize h self))
       = (Some underlying_future, Some expected_option, Some expected_option)"
  by (simp add: Initialize_outcome Initialize_fields split: sum.splits if_splits)

lemma scenario_success:
  "fst (Initialize h new_algorithm) = Inr () \<Longrightarrow>
     scenario h cbs = run (snd (Initialize h new_algorithm)) cbs"
  by (cases "Initialize h new_algorithm") (simp add: scenario_def)

lemma scenario_failure:
  "fst (Initialize h new_algorithm) = Inl e \<Longrightarrow>
     scenario h cbs = (Inl e, snd (Initialize h new_algorithm))"
  by (cases "Initialize h new_algorithm") (simp add: scenario_def)

lemma scenario_Orders:
  "\<exists>n \<le> count_list cbs Scheduled.
      Orders (snd (scenario h cbs)) = replicate n (expected_option, - 1)
      \<and> (fst (scenario h cbs) = Inr () \<longrightarrow> n = count_list cbs Scheduled)"
proof (cases "fst (Initialize h new_algorithm)")
  case (Inl e)
  have "Orders (snd (Initialize h new_algorithm)) = []"
    by (simp add: Initialize_Orders new_algorithm_def)
  with Inl show ?thesis
    by (intro exI [of _ 0]) (simp add: scenario_failure)
next
  case (Inr u)
  then have ok: "fst (Initialize h new_algorithm) = Inr ()" by simp
  let ?self = "snd (Initialize h new_algorithm)"
  from Initialize_success_fields [OF ok] have "esOption ?self = Some expected_option"
    by (simp add: fields_def)
  from run_Orders [OF this, of cbs] obtain n where "n \<le> count_list cbs Scheduled"
    "Orders (snd (run ?self cbs)) = Orders ?self @ replicate n (expected_option, - 1)"
    "fst (run ?self cbs) = Inr () \<longrightarrow> n = count_list cbs Scheduled"
    by blast
  moreover have "Orders ?self = []"
    by (simp add: Initialize_Orders new_algorithm_def)
  ultimately show ?thesis
    by (intro exI [of _ n]) (simp add: scenario_success [OF ok])
qed

text \<open>
  Claim C6. \<^verbatim>\<open>ScheduledMarketOrder\<close> submits one market order, of quantity -1, for the
  contract in \<^verbatim>\<open>esOption\<close>, whatever else holds (no validation, no retry).
  \<^verbatim>\<open>Initialize\<close> and the other handlers submit none, and \<^verbatim>\<open>Initialize\<close> schedules the
  callback once, on the single date 2020-09-22. So a run in which the engine fires the
  scheduled callback once submits exactly that order when it completes, and that order
  or none when an assertion aborts it.
\<close>

theorem C6_single_market_order:
  "(esOption self = Some opt \<longrightarrow>
      ScheduledMarketOrder self = (Inr (), self\<lparr>Orders := Orders self @ [(opt, - 1)]\<rparr>))
   \<and> Orders (snd (Initialize h self)) = Orders self
   \<and> (cb \<noteq> Scheduled \<longrightarrow> Orders (snd (invoke self cb)) = Orders self)
   \<and> (fst (Initialize h self) = Inr () \<longrightarrow>
        Schedule (snd (Initialize h self)) = Schedule self @
          [\<lparr>se_Date = query_date, se_Time = AfterMarketOpen underlying_future 1,
            se_Callback = ScheduledMarketOrderHandler\<rparr>])
   \<and> (count_list cbs Scheduled = 1 \<and> fst (scenario h cbs) = Inr () \<longrightarrow>
        Orders (snd (scenario h cbs)) = [(expected_option, - 1)])
   \<and> (count_list cbs Scheduled = 1 \<longrightarrow>
        Orders (snd (scenario h cbs)) = []
        \<or> Orders (snd (scenario h cbs)) = [(expected_option, - 1)])"
proof (intro conjI impI)
  assume "esOption self = Some opt"
  then show "ScheduledMarketOrder self = (Inr (), self\<lparr>Orders := Orders self @ [(opt, - 1)]\<rparr>)"
    by (simp add: ScheduledMarketOrder_def MarketOrder_def)
next
  show "Orders (snd (Initialize h self)) = Orders self" by (rule Initialize_Orders)
next
  assume "cb \<noteq> Scheduled"
  then show "Orders (snd (invoke self cb)) = Orders self" by (rule invoke_Orders_other)
next
  assume "fst (Initialize h self) = Inr ()"
  then show "Schedule (snd (Initialize h self)) = Schedule self @
          [\<lparr>se_Date = query_date, se_Time = AfterMarketOpen underlying_future 1,
            se_Callback = ScheduledMarketOrderHandler\<rparr>]"
    by (rule Initialize_Schedule)
next
  assume a: "count_list cbs Scheduled = 1 \<and> fst (scenario h cbs) = Inr ()"
  from scenario_Orders [of cbs h] obtain n where
    "Orders (snd (scenario h cbs)) = replicate n (expected_option, - 1)"
    "fst (scenario h cbs) = Inr () \<longrightarrow> n = count_list cbs Scheduled"
    by blast
  with a show "Orders (snd (scenario h cbs)) = [(expected_option, - 1)]" by simp
next
  assume a: "count_list cbs Scheduled = 1"
  from scenario_Orders [of cbs h] obtain n where n: "n \<le> count_list cbs Scheduled"
    "Orders (snd (scenario h cbs)) = replicate n (expected_option, - 1)"
    by blast
  from n(1) a have "n = 0 \<or> n = 1" by arith
  with n(2) show "Orders (snd (scenario h cbs)) = []
        \<or> Orders (snd (scenario h cbs)) = [(expected_option, - 1)]"
    by auto
qed

text \<open>
  Claim C7. \<^verbatim>\<open>ScheduledMarketOrder\<close>, \<^verbatim>\<open>OnData\<close>, \<^verbatim>\<open>OnOrderEvent\<close>,
  \<^verbatim>\<open>AssertFutureOptionContractOrder\<close> and \<^verbatim>\<open>OnEndOfAlgorithm\<close> leave the instance fields
  as they were, whether they raise or not, and so does any sequence of them; the fields
  hold what a successful \<^verbatim>\<open>Initialize\<close> wrote, to the end of the run.
\<close>

theorem C7_instance_fields_frame:
  "fields (snd (ScheduledMarketOrder self)) = fields self
   \<and> fields (snd (OnData self data)) = fields self
   \<and> fields (snd (OnOrderEvent h self ev)) = fields self
   \<and> fields (snd (AssertFutureOptionContractOrder self ev sec)) = fields self
   \<and> fields (snd (OnEndOfAlgorithm h self)) = fields self
   \<and> fields (snd (run self cbs)) = fields self
   \<and> (fst (Initialize h self) = Inr () \<longrightarrow>
        fields (snd (Initialize h self))
          = (Some underlying_future, Some expected_option, Some expected_option))
   \<and> (fst (scenario h cbs) = Inr () \<longrightarrow>
        fields (snd (scenario h cbs))
          = (Some underlying_future, Some expected_option, Some expected_option))"
proof (intro conjI impI)
  show "fields (snd (ScheduledMarketOrder self)) = fields self"
    using invoke_fields [of self Scheduled] by simp
  show "fields (snd (OnData self data)) = fields self"
    using invoke_fields [of self "Data data"] by simp
  show "fields (snd (OnOrderEvent h self ev)) = fields self"
    using invoke_fields [of self "OrderEv h ev"] by simp
  show "fields (snd (AssertFutureOptionContractOrder self ev sec)) = fields self"
    by (simp add: AssertFutureOptionContractOrder_snd)
  show "fields (snd (OnEndOfAlgorithm h self)) = fields self"
    using invoke_fields [of self "EndOfAlgorithm h"] by simp
  show "fields (snd (run self cbs)) = fields self" by (rule run_fields)
next
  assume "fst (Initialize h self) = Inr ()"
  then show "fields (snd (Initialize h self))
          = (Some underlying_future, Some expected_option, Some expected_option)"
    by (rule Initialize_success_fields)
next
  assume a: "fst (scenario h cbs) = Inr ()"
  have ok: "fst (Initialize h new_algorithm) = Inr ()"
  proof (cases "fst (Initialize h new_algorithm)")
    case (Inl e)
    with a show ?thesis by (simp add: scenario_failure)
  next
    case (Inr u)
    then show ?thesis by simp
  qed
  then show "fields (snd (scenario h cbs))
          = (Some underlying_future, Some expected_option, Some expected_option)"
    by (simp add: scenario_success run_fields Initialize_success_fields)
qed

section \<open>Two runs on the same inputs\<close>

lemma Initialize_chain_only:
  "GetOptionContractList h1 underlying_future query_date
     = GetOptionContractList h2 underlying_future query_date
   \<Longrightarrow> Initialize h1 self = Initialize h2 self"
  by (simp add: Initialize_def engine_defs Let_def underlying_future_def query_date_def)

lemma invoke_agree:
  assumes "fields self1 = fields self2"
  shows "fst (invoke self1 cb) = fst (invoke self2 cb)
    \<and> (\<exists>os. Orders (snd (invoke self1 cb)) = Orders self1 @ os
           \<and> Orders (snd (invoke self2 cb)) = Orders self2 @ os)"
proof (cases cb)
  case Scheduled
  with assms show ?thesis
    by (simp add: ScheduledMarketOrder_def MarketOrder_def fields_def split: option.split)
next
  case (Data data)
  then show ?thesis by (simp add: OnData_def)
next
  case (OrderEv h ev)
  with assms show ?thesis
    by (simp add: OnOrderEvent_def AssertFutureOptionContractOrder_def Log_def fields_def
        split: option.split)
next
  case (EndOfAlgorithm h)
  then show ?thesis by (simp add: OnEndOfAlgorithm_def)
qed

lemma run_agree:
  assumes "fields self1 = fields self2"
  shows "fst (run self1 cbs) = fst (run self2 cbs)
    \<and> (\<exists>os. Orders (snd (run self1 cbs)) = Orders self1 @ os
           \<and> Orders (snd (run self2 cbs)) = Orders self2 @ os)"
  using assms
proof (induction cbs arbitrary: self1 self2)
  case Nil
  show ?case by simp
next
  case (Cons cb cbs)
  obtain r1 s1 where i1: "invoke self1 cb = (r1, s1)" by (cases "invoke self1 cb")
  obtain r2 s2 where i2: "invoke self2 cb = (r2, s2)" by (cases "invoke self2 cb")
  from invoke_agree [OF Cons.prems, of cb] i1 i2 obtain os where
    r: "r1 = r2" and o: "Orders s1 = Orders self1 @ os" "Orders s2 = Orders self2 @ os"
    by auto
  from invoke_fields [of self1 cb] invoke_fields [of self2 cb] i1 i2 Cons.prems
  have f: "fields s1 = fields s2" by simp
  from i2 r have i2': "invoke self2 cb = (r1, s2)" by simp
  show ?case
  proof (cases r1)
    case (Inl e)
    with i1 i2' o show ?thesis by simp
  next
    case (Inr u)
    from Cons.IH [OF f] obtain os' where
      "fst (run s1 cbs) = fst (run s2 cbs)"
      "Orders (snd (run s1 cbs)) = Orders s1 @ os'"
      "Orders (snd (run s2 cbs)) = Orders s2 @ os'"
      by blast
    with Inr i1 i2' o show ?thesis by simp
  qed
qed

text \<open>
  Claim C8. Two runs on the same inputs end the same way. \<^verbatim>\<open>Initialize\<close>, and with it
  the whole scenario, depends on the engine only through the chain it returns for the
  future at the query date; and two objects with the same instance fields, given the same
  callbacks (slices, order events and the engine's facts), reach the same outcome (the
  same exception or none), the same fields and the same newly submitted orders.
\<close>

theorem C8_deterministic:
  "(GetOptionContractList h1 underlying_future query_date
      = GetOptionContractList h2 underlying_future query_date
    \<longrightarrow> Initialize h1 self = Initialize h2 self \<and> scenario h1 cbs = scenario h2 cbs)
   \<and> (fields self1 = fields self2
    \<longrightarrow> fst (run self1 cbs) = fst (run self2 cbs)
      \<and> fields (snd (run self1 cbs)) = fields (snd (run self2 cbs))
      \<and> drop (length (Orders self1)) (Orders (snd (run self1 cbs)))
          = drop (length (Orders self2)) (Orders (snd (run self2 cbs))))"
proof (intro conjI impI)
  assume a: "GetOptionContractList h1 underlying_future query_date
      = GetOptionContractList h2 underlying_future query_date"
  then show "Initialize h1 self = Initialize h2 self" by (rule Initialize_chain_only)
  from a show "scenario h1 cbs = scenario h2 cbs"
    by (simp add: scenario_def Initialize_chain_only [of h1 h2])
next
  assume a: "fields self1 = fields self2"
  from run_agree [OF a, of cbs] show "fst (run self1 cbs) = fst (run self2 cbs)" by simp
  from a show "fields (snd (run self1 cbs)) = fields (snd (run self2 cbs))"
    by (simp add: run_fields)
  from run_agree [OF a, of cbs]
  show "drop (length (Orders self1)) (Orders (snd (run self1 cbs)))
          = drop (length (Orders self2)) (Orders (snd (run self2 cbs)))"
    by auto
qed

section \<open>The expected scenario, evaluated\<close>

lemmas example_defs =
  example_put_def example_call_def chain_host_def example_chain_def example_event_def
  example_security_def example_delisting_def holding_host_def initialized_def example_run_def
  underlying_future_def query_date_def expected_option_def CreateFuture_def CreateOption_def
  SP500EMini_def datetime_def new_algorithm_def

lemmas callback_defs =
  ScheduledMarketOrder_def check_delisting_def OnData_def Values_def
  AssertFutureOptionContractOrder_def OnOrderEvent_def OnEndOfAlgorithm_def

lemma example_select: "select_contract example_chain = Inr (example_put 3200)"
  by (simp add: select_contract_def put_candidates_def example_defs)

lemma example_Initialize: "fst (Initialize (chain_host example_chain) new_algorithm) = Inr ()"
  by (simp add: Initialize_outcome example_select chain_host_def)
     (simp add: example_defs)

lemma example_scenario: "fst (scenario (chain_host example_chain) example_run) = Inr ()"
proof -
  let ?s = "snd (Initialize (chain_host example_chain) new_algorithm)"
  from Initialize_success_fields [OF example_Initialize]
  have f: "es19h21 ?s = Some underlying_future" "esOption ?s = Some expected_option"
    "expectedContract ?s = Some expected_option"
    by (simp_all add: fields_def)
  have "fst (run ?s example_run) = Inr ()"
    by (simp add: example_run_def callback_defs f MarketOrder_def Log_def holding_host_def
        example_security_def example_event_def example_delisting_def)
       (simp add: example_defs)
  then show ?thesis by (simp add: scenario_success [OF example_Initialize])
qed

lemma example_chain_host:
  "GetOptionContractList (chain_host chain) underlying_future query_date = chain"
  by (simp add: chain_host_def)

text \<open>
  Claim C1 at concrete inputs: a chain whose lowest qualifying put is the expected
  contract, and one whose lowest qualifying put has strike 3250.
\<close>

theorem C1_witness:
  "example_put 3200 \<in> set (GetOptionContractList (chain_host example_chain)
       underlying_future query_date)
   \<and> OptionRight (example_put 3200) = Put \<and> 3200 \<le> StrikePrice (example_put 3200)
   \<and> fst (Initialize (chain_host example_chain) new_algorithm) = Inr ()
   \<and> esOption (snd (Initialize (chain_host example_chain) new_algorithm))
       = Some expected_option
   \<and> example_put 3250 \<in> set (GetOptionContractList
       (chain_host [example_put 3300, example_put 3100, example_put 3250])
       underlying_future query_date)
   \<and> OptionRight (example_put 3250) = Put \<and> 3200 \<le> StrikePrice (example_put 3250)
   \<and> fst (Initialize (chain_host [example_put 3300, example_put 3100, example_put 3250])
        new_algorithm)
       = Inl (AssertionError (ContractNotFoundInChain expected_option))
   \<and> esOption (snd (Initialize
        (chain_host [example_put 3300, example_put 3100, example_put 3250]) new_algorithm))
       = Some (OptionSymbol (example_put 3250))"
proof -
  let ?h = "chain_host example_chain"
  let ?h' = "chain_host [example_put 3300, example_put 3100, example_put 3250]"
  have m: "example_put 3200 \<in> set (GetOptionContractList ?h underlying_future query_date)"
    by (simp add: example_chain_host example_chain_def)
  have p: "OptionRight (example_put 3200) = Put" "3200 \<le> StrikePrice (example_put 3200)"
    by (simp_all add: example_put_def)
  have e: "OptionSymbol (example_put 3200) = expected_option"
    by (simp add: example_defs)
  from C1_Initialize_selects_lowest_put [OF m p, of new_algorithm]
  obtain c where c: "c \<in> set example_chain" "OptionRight c = Put" "3200 \<le> StrikePrice c"
      "\<forall>x \<in> set example_chain.
          OptionRight x = Put \<and> 3200 \<le> StrikePrice x \<longrightarrow> StrikePrice c \<le> StrikePrice x"
      "esOption (snd (Initialize ?h new_algorithm)) = Some (OptionSymbol c)"
      "OptionSymbol c = expected_option \<longrightarrow> fst (Initialize ?h new_algorithm) = Inr ()"
    unfolding example_chain_host by blast
  from c(1-4) have "c = example_put 3200"
    by (auto simp: example_chain_def example_put_def example_call_def)
  with c(5,6) e have 1: "fst (Initialize ?h new_algorithm) = Inr ()"
    "esOption (snd (Initialize ?h new_algorithm)) = Some expected_option"
    by simp_all
  have m': "example_put 3250 \<in> set (GetOptionContractList ?h' underlying_future query_date)"
    by (simp add: example_chain_host)
  have p': "OptionRight (example_put 3250) = Put" "3200 \<le> StrikePrice (example_put 3250)"
    by (simp_all add: example_put_def)
  have e': "OptionSymbol (example_put 3250) \<noteq> expected_option"
    by (simp add: example_defs)
  from C1_Initialize_selects_lowest_put [OF m' p', of new_algorithm]
  obtain c' where c': "c' \<in> set [example_put 3300, example_put 3100, example_put 3250]"
      "OptionRight c' = Put" "3200 \<le> StrikePrice c'"
      "\<forall>x \<in> set [example_put 3300, example_put 3100, example_put 3250].
          OptionRight x = Put \<and> 3200 \<le> StrikePrice x \<longrightarrow> StrikePrice c' \<le> StrikePrice x"
      "esOption (snd (Initialize ?h' new_algorithm)) = Some (OptionSymbol c')"
      "OptionSymbol c' \<noteq> expected_option \<longrightarrow> fst (Initialize ?h' new_algorithm)
          = Inl (AssertionError (ContractNotFoundInChain expected_option))"
    unfolding example_chain_host by blast
  from c'(1-4) have "c' = example_put 3250"
    by (auto simp: example_put_def)
  with c'(5,6) e' have 2: "fst (Initialize ?h' new_algorithm)
          = Inl (AssertionError (ContractNotFoundInChain expected_option))"
    "esOption (snd (Initialize ?h' new_algorithm)) = Some (OptionSymbol (example_put 3250))"
    by simp_all
  from m p 1 m' p' 2 show ?thesis by simp
qed


text \<open>Claim C2 at concrete inputs.\<close>

theorem C2_witness:
  "is_AssertionError (fst (AssertFutureOptionContractOrder initialized
      (example_event Sell False) (example_security expected_option 0)))
   \<and> is_AssertionError (fst (AssertFutureOptionContractOrder initialized
      (example_event Buy False) (example_security expected_option (- 1))))
   \<and> is_AssertionError (fst (AssertFutureOptionContractOrder initialized
      (example_event Sell True) (example_security expected_option (- 1))))
   \<and> AssertFutureOptionContractOrder initialized
      (example_event Sell False) (example_security expected_option (- 1))
       = (Inr (), initialized)"
  using
    C2_AssertFutureOptionContractOrder
      [of "example_event Sell False" "example_security expected_option 0" initialized]
    C2_AssertFutureOptionContractOrder
      [of "example_event Buy False" "example_security expected_option (- 1)" initialized]
    C2_AssertFutureOptionContractOrder
      [of "example_event Sell True" "example_security expected_option (- 1)" initialized]
    C2_AssertFutureOptionContractOrder
      [of "example_event Sell False" "example_security expected_option (- 1)" initialized]
  by (simp add: example_event_def example_security_def)

text \<open>Claim C3 at concrete inputs.\<close>

theorem C3_witness:
  "is_AssertionError (fst (OnData initialized
      \<lparr>Delistings = [example_delisting expected_option Warning 18]\<rparr>))
   \<and> is_AssertionError (fst (OnData initialized
      \<lparr>Delistings = [example_delisting expected_option Warning 19,
                     example_delisting expected_option Delisted 19]\<rparr>))
   \<and> OnData initialized
      \<lparr>Delistings = [example_delisting expected_option Warning 19,
                     example_delisting expected_option Delisted 20]\<rparr> = (Inr (), initialized)"
  using
    C3_OnData_delisting_times
      [of "\<lparr>Delistings = [example_delisting expected_option Warning 18]\<rparr>" initialized]
    C3_OnData_delisting_times
      [of "\<lparr>Delistings = [example_delisting expected_option Warning 19,
                     example_delisting expected_option Delisted 19]\<rparr>" initialized]
    C3_OnData_delisting_times
      [of "\<lparr>Delistings = [example_delisting expected_option Warning 19,
                     example_delisting expected_option Delisted 20]\<rparr>" initialized]
  by (simp add: Values_def example_delisting_def datetime_def)

text \<open>Claim C9 at concrete inputs.\<close>

theorem C9_witness:
  "is_AssertionError (fst (OnData initialized
      \<lparr>Delistings = [example_delisting (EquitySymbol ''AAPL'' USA) Warning 18]\<rparr>))
   \<and> is_AssertionError (fst (OnData initialized
      \<lparr>Delistings = [example_delisting underlying_future Delisted 19]\<rparr>))"
  using
    C9_OnData_ignores_symbols
      [of "EquitySymbol ''AAPL'' USA" "snd (example_delisting (EquitySymbol ''AAPL'' USA) Warning 18)"
          "\<lparr>Delistings = [example_delisting (EquitySymbol ''AAPL'' USA) Warning 18]\<rparr>" initialized]
    C9_OnData_ignores_symbols
      [of underlying_future "snd (example_delisting underlying_future Delisted 19)"
          "\<lparr>Delistings = [example_delisting underlying_future Delisted 19]\<rparr>" initialized]
  by (simp add: example_delisting_def datetime_def)

text \<open>Claim C4 at concrete inputs.\<close>

theorem C4_witness:
  "PortfolioInvested (holding_host expected_option (- 1))
   \<and> is_AssertionError (fst (OnEndOfAlgorithm (holding_host expected_option (- 1)) initialized))
   \<and> \<not> PortfolioInvested (holding_host expected_option 0)
   \<and> fst (OnEndOfAlgorithm (holding_host expected_option 0) initialized) = Inr ()"
  using
    C4_OnEndOfAlgorithm_invested [of "holding_host expected_option (- 1)" initialized]
    C4_OnEndOfAlgorithm_invested [of "holding_host expected_option 0" initialized]
  by (simp add: holding_host_def)

text \<open>Claim C5 at concrete inputs.\<close>

theorem C5_witness:
  "OnOrderEvent (holding_host expected_option (- 1)) initialized
      ((example_event Sell False)\<lparr>oe_Status := Submitted\<rparr>) = (Inr (), initialized)
   \<and> is_AssertionError (fst (OnOrderEvent (holding_host (EquitySymbol ''AAPL'' USA) 0)
        initialized (example_event Sell False)))
   \<and> is_AssertionError (fst (OnOrderEvent (holding_host underlying_future (- 1))
        initialized ((example_event Sell False)\<lparr>oe_Symbol := underlying_future\<rparr>)))
   \<and> is_AssertionError (fst (OnOrderEvent (holding_host (EquitySymbol ''AAPL'' USA) (- 1))
        initialized ((example_event Sell False)\<lparr>oe_Symbol := EquitySymbol ''AAPL'' USA\<rparr>)))
   \<and> fst (OnOrderEvent (holding_host expected_option (- 1)) initialized
        (example_event Sell False)) = Inr ()
   \<and> is_AssertionError (fst (OnOrderEvent (holding_host expected_option 0) initialized
        (example_event Sell False)))"
proof -
  let ?ev = "example_event Sell False"
  let ?aapl = "EquitySymbol ''AAPL'' USA"
  have ne: "expected_option \<noteq> underlying_future" "?aapl \<noteq> expected_option"
    "?aapl \<noteq> underlying_future"
    by (simp_all add: example_defs)
  have i: "es19h21 initialized = Some underlying_future"
    "expectedContract initialized = Some expected_option"
    by (simp_all add: initialized_def)
  have 1: "OnOrderEvent (holding_host expected_option (- 1)) initialized
      (?ev\<lparr>oe_Status := Submitted\<rparr>) = (Inr (), initialized)"
    using C5_OnOrderEvent [where ev = "?ev\<lparr>oe_Status := Submitted\<rparr>"
        and h = "holding_host expected_option (- 1)" and self = initialized]
    by (simp add: example_event_def)
  have 2: "is_AssertionError (fst (OnOrderEvent (holding_host ?aapl 0) initialized ?ev))"
    using C5_OnOrderEvent [where ev = ?ev and h = "holding_host ?aapl 0"
        and self = initialized] ne
    by (simp add: example_event_def holding_host_def)
  have 3: "is_AssertionError (fst (OnOrderEvent (holding_host underlying_future (- 1))
        initialized (?ev\<lparr>oe_Symbol := underlying_future\<rparr>)))"
    using C5_OnOrderEvent [where ev = "?ev\<lparr>oe_Symbol := underlying_future\<rparr>"
        and h = "holding_host underlying_future (- 1)" and self = initialized
        and sec = "example_security underlying_future (- 1)"] i
    by (simp add: example_event_def holding_host_def example_security_def)
  have 4: "is_AssertionError (fst (OnOrderEvent (holding_host ?aapl (- 1))
        initialized (?ev\<lparr>oe_Symbol := ?aapl\<rparr>)))"
    using C5_OnOrderEvent [where ev = "?ev\<lparr>oe_Symbol := ?aapl\<rparr>"
        and h = "holding_host ?aapl (- 1)" and self = initialized
        and sec = "example_security ?aapl (- 1)" and u = underlying_future
        and e = expected_option] i ne
    by (simp add: example_event_def holding_host_def example_security_def)
  have 5: "fst (OnOrderEvent (holding_host expected_option (- 1)) initialized ?ev)
      = fst (AssertFutureOptionContractOrder initialized ?ev
          (example_security expected_option (- 1)))"
    using C5_OnOrderEvent [where ev = ?ev
        and h = "holding_host expected_option (- 1)" and self = initialized
        and sec = "example_security expected_option (- 1)" and u = underlying_future
        and e = expected_option] i ne
    by (simp add: example_event_def holding_host_def example_security_def)
  have 6: "fst (OnOrderEvent (holding_host expected_option 0) initialized ?ev)
      = fst (AssertFutureOptionContractOrder initialized ?ev
          (example_security expected_option 0))"
    using C5_OnOrderEvent [where ev = ?ev
        and h = "holding_host expected_option 0" and self = initialized
        and sec = "example_security expected_option 0" and u = underlying_future
        and e = expected_option] i ne
    by (simp add: example_event_def holding_host_def example_security_def)
  from 1 2 3 4 5 6 show ?thesis
    by (simp add: AssertFutureOptionContractOrder_def example_event_def example_security_def)
qed

text \<open>Claim C6 at concrete inputs.\<close>

theorem C6_witness:
  "esOption initialized = Some expected_option
   \<and> ScheduledMarketOrder initialized
       = (Inr (), initialized\<lparr>Orders := [(expected_option, - 1)]\<rparr>)
   \<and> count_list example_run Scheduled = 1
   \<and> fst (scenario (chain_host example_chain) example_run) = Inr ()
   \<and> Orders (snd (scenario (chain_host example_chain) example_run)) = [(expected_option, - 1)]"
proof -
  have a: "esOption initialized = Some expected_option" by (simp add: initialized_def)
  have b: "count_list example_run Scheduled = 1" by (simp add: example_run_def)
  have c: "Orders initialized = []" by (simp add: initialized_def new_algorithm_def)
  from a b c example_scenario
    C6_single_market_order [where self = initialized and opt = expected_option
      and cbs = example_run and h = "chain_host example_chain"]
  show ?thesis by simp
qed

text \<open>Claim C7 at concrete inputs.\<close>

theorem C7_witness:
  "fst (Initialize (chain_host example_chain) new_algorithm) = Inr ()
   \<and> fields (snd (Initialize (chain_host example_chain) new_algorithm))
       = (Some underlying_future, Some expected_option, Some expected_option)
   \<and> fst (scenario (chain_host example_chain) example_run) = Inr ()
   \<and> fields (snd (scenario (chain_host example_chain) example_run))
       = (Some underlying_future, Some expected_option, Some expected_option)"
  using example_Initialize example_scenario
    C7_instance_fields_frame [where h = "chain_host example_chain" and self = new_algorithm
      and cbs = example_run]
  by simp

text \<open>Claim C8 at concrete inputs.\<close>

theorem C8_witness:
  "GetOptionContractList (chain_host example_chain) underlying_future query_date
     = GetOptionContractList
         ((chain_host example_chain)\<lparr>PortfolioInvested := True,
            PortfolioKeys := [underlying_future]\<rparr>) underlying_future query_date
   \<and> scenario (chain_host example_chain) example_run
     = scenario ((chain_host example_chain)\<lparr>PortfolioInvested := True,
            PortfolioKeys := [underlying_future]\<rparr>) example_run
   \<and> fields initialized = fields (initialized\<lparr>Logs := [LogText ''earlier'']\<rparr>)
   \<and> fst (run initialized example_run)
     = fst (run (initialized\<lparr>Logs := [LogText ''earlier'']\<rparr>) example_run)"
proof -
  have a: "GetOptionContractList (chain_host example_chain) underlying_future query_date
     = GetOptionContractList
         ((chain_host example_chain)\<lparr>PortfolioInvested := True,
            PortfolioKeys := [underlying_future]\<rparr>) underlying_future query_date"
    by (simp add: chain_host_def)
  have b: "fields initialized = fields (initialized\<lparr>Logs := [LogText ''earlier'']\<rparr>)"
    by (simp add: fields_def)
  from a b
    C8_deterministic [where ?h1.0 = "chain_host example_chain"
      and ?h2.0 = "(chain_host example_chain)\<lparr>PortfolioInvested := True,
            PortfolioKeys := [underlying_future]\<rparr>"
      and ?self1.0 = initialized
      and ?self2.0 = "initialized\<lparr>Logs := [LogText ''earlier'']\<rparr>"
      and cbs = example_run and self = new_algorithm]
  show ?thesis by simp
qed

end
